theory Spec2Isabelle
  imports Complex_Main
begin

section \<open>Python values, exceptions and built-ins used by the collectors\<close>

text \<open>
  The collectors work on decoded JSON (the result of \<^verbatim>\<open>await response.json()\<close>).
  A decoded object is a Python dict; it is represented by an association list that is
  read with \<open>map_of\<close>. A JSON float is represented by its numeric value (NaN and the
  infinities are outside the model). Strings are ASCII.
\<close>

datatype json =
    JNull
  | JBool bool
  | JInt int
  | JFloat real
  | JStr string
  | JArr "json list"
  | JObj "(string \<times> json) list"

text \<open>
  Only instances of Python's \<^verbatim>\<open>Exception\<close> are modelled: every \<^verbatim>\<open>except Exception\<close>
  and every \<^verbatim>\<open>isinstance(r, Exception)\<close> of the source accepts each value of this type.
  \<^verbatim>\<open>KeyboardInterrupt\<close>, \<^verbatim>\<open>SystemExit\<close> and task cancellation end the process from
  outside and are not part of the model. \<open>ClientError\<close> stands for what the HTTP
  session raises (connection errors, timeouts, an undecodable body), \<open>SinkError\<close> for
  what the Event Hub or Kusto client raises. The messages that the source formats
  itself are exact; those of the interpreter follow CPython 3.10 for plain ASCII
  strings (\<open>quoted\<close> stands for \<^verbatim>\<open>repr\<close> of such a string).
\<close>

datatype exn =
    Exception string
  | KeyError string
  | TypeError string
  | ValueError string
  | AttributeError string
  | IndexError string
  | ClientError string
  | SinkError string

definition quoted :: "string \<Rightarrow> string" where
  "quoted s = [CHR 0x27] @ s @ [CHR 0x27]"

fun type_name :: "json \<Rightarrow> string" where
  "type_name JNull = ''NoneType''"
| "type_name (JBool b) = ''bool''"
| "type_name (JInt n) = ''int''"
| "type_name (JFloat x) = ''float''"
| "type_name (JStr s) = ''str''"
| "type_name (JArr xs) = ''list''"
| "type_name (JObj kvs) = ''dict''"

fun str_exn :: "exn \<Rightarrow> string" where
  "str_exn (Exception m) = m"
| "str_exn (KeyError k) = quoted k"
| "str_exn (TypeError m) = m"
| "str_exn (ValueError m) = m"
| "str_exn (AttributeError m) = m"
| "str_exn (IndexError m) = m"
| "str_exn (ClientError m) = m"
| "str_exn (SinkError m) = m"

definition sbind :: "exn + 'a \<Rightarrow> ('a \<Rightarrow> exn + 'b) \<Rightarrow> exn + 'b" where
  "sbind m f = (case m of Inl e \<Rightarrow> Inl e | Inr x \<Rightarrow> f x)"

subsection \<open>\<^verbatim>\<open>str(int)\<close>\<close>

definition digit_char :: "nat \<Rightarrow> char" where
  "digit_char d = ''0123456789'' ! d"

fun str_nat :: "nat \<Rightarrow> string" where
  "str_nat n = (if n < 10 then [digit_char n] else str_nat (n div 10) @ [digit_char (n mod 10)])"

declare str_nat.simps [simp del]

definition str_int :: "int \<Rightarrow> string" where
  "str_int i = (if i < 0 then CHR ''-'' # str_nat (nat (- i)) else str_nat (nat i))"

subsection \<open>Subscripting, \<^verbatim>\<open>dict.get\<close>, truthiness, \<^verbatim>\<open>len\<close>\<close>

text \<open>\<^verbatim>\<open>d[k]\<close> with a string key.\<close>

fun getitem :: "json \<Rightarrow> string \<Rightarrow> exn + json" where
  "getitem (JObj kvs) k = (case map_of kvs k of None \<Rightarrow> Inl (KeyError k) | Some v \<Rightarrow> Inr v)"
| "getitem (JArr xs) k = Inl (TypeError ''list indices must be integers or slices, not str'')"
| "getitem (JStr s) k = Inl (TypeError ''string indices must be integers'')"
| "getitem v k = Inl (TypeError (quoted (type_name v) @ '' object is not subscriptable''))"

text \<open>\<^verbatim>\<open>d.get(k, default)\<close>: only a dict has the method.\<close>

fun dict_get :: "json \<Rightarrow> string \<Rightarrow> json \<Rightarrow> exn + json" where
  "dict_get (JObj kvs) k d = Inr (case map_of kvs k of None \<Rightarrow> d | Some v \<Rightarrow> v)"
| "dict_get v k d =
     Inl (AttributeError (quoted (type_name v) @ '' object has no attribute '' @ quoted ''get''))"



subsection \<open>\<^verbatim>\<open>int(x)\<close> and \<^verbatim>\<open>int(x, 16)\<close>\<close>

text \<open>
  The interpreter's parser of integer literals: leading white space, an optional sign,
  for base 16 an optional \<^verbatim>\<open>0x\<close> prefix (after which one underscore may stand), digits
  with single underscores between them, trailing white space. The limit on the
  number of decimal digits of recent interpreters is not modelled.
\<close>

definition is_space :: "char \<Rightarrow> bool" where
  "is_space c = (c \<in> set [CHR '' '', CHR 0x09, CHR 0x0A, CHR 0x0B, CHR 0x0C, CHR 0x0D,
                          CHR 0x1C, CHR 0x1D, CHR 0x1E, CHR 0x1F])"

definition digit_val :: "char \<Rightarrow> nat" where
  "digit_val c =
     (let k = of_char c :: nat in
      if 48 \<le> k \<and> k \<le> 57 then k - 48
      else if 97 \<le> k \<and> k \<le> 122 then k - 87
      else if 65 \<le> k \<and> k \<le> 90 then k - 55
      else 36)"

definition is_digit :: "nat \<Rightarrow> char \<Rightarrow> bool" where
  "is_digit base c = (digit_val c < base)"

fun double_underscore :: "string \<Rightarrow> bool" where
  "double_underscore (a # b # cs) = ((a = CHR ''_'' \<and> b = CHR ''_'') \<or> double_underscore (b # cs))"
| "double_underscore cs = False"

definition digits_value :: "nat \<Rightarrow> string \<Rightarrow> nat" where
  "digits_value base ds = foldl (\<lambda>acc c. acc * base + digit_val c) 0 ds"

definition strip_sign :: "string \<Rightarrow> bool \<times> string" where
  "strip_sign s =
     (case s of
        [] \<Rightarrow> (False, [])
      | c # r \<Rightarrow> if c = CHR ''+'' then (False, r) else if c = CHR ''-'' then (True, r) else (False, s))"

fun strip_prefix :: "nat \<Rightarrow> string \<Rightarrow> string" where
  "strip_prefix base (a # b # r) =
     (if base = 16 \<and> a = CHR ''0'' \<and> (b = CHR ''x'' \<or> b = CHR ''X'')
      then (case r of [] \<Rightarrow> [] | c # r' \<Rightarrow> if c = CHR ''_'' then r' else r)
      else a # b # r)"
| "strip_prefix base s = s"

definition parse_int :: "nat \<Rightarrow> string \<Rightarrow> int option" where
  "parse_int base s =
     (let (neg, s2) = strip_sign (dropWhile is_space s);
          s3 = strip_prefix base s2;
          body = takeWhile (\<lambda>c. is_digit base c \<or> c = CHR ''_'') s3;
          rest = dropWhile (\<lambda>c. is_digit base c \<or> c = CHR ''_'') s3
      in if body = [] then None
         else if hd body = CHR ''_'' \<or> last body = CHR ''_'' \<or> double_underscore body then None
         else if \<not> list_all is_space rest then None
         else let v = int (digits_value base (filter (\<lambda>c. c \<noteq> CHR ''_'') body))
              in Some (if neg then - v else v))"

text \<open>\<^verbatim>\<open>int(x)\<close> on a decoded JSON value; a float is truncated towards zero.\<close>

fun py_int :: "json \<Rightarrow> exn + int" where
  "py_int (JInt n) = Inr n"
| "py_int (JBool b) = Inr (if b then 1 else 0)"
| "py_int (JFloat x) = Inr (if 0 \<le> x then \<lfloor>x\<rfloor> else \<lceil>x\<rceil>)"
| "py_int (JStr s) =
     (case parse_int 10 s of
        None \<Rightarrow> Inl (ValueError (''invalid literal for int() with base 10: '' @ quoted s))
      | Some n \<Rightarrow> Inr n)"
| "py_int v =
     Inl (TypeError (''int() argument must be a string, a bytes-like object or a real number, not ''
                     @ quoted (type_name v)))"


subsection \<open>HTTP\<close>

text \<open>
  What \<^verbatim>\<open>session.get\<close> yields is \<open>exn + response\<close>: the call raises (\<open>Inl\<close>) or gives a
  response with its status and with what \<^verbatim>\<open>await response.json()\<close> would give, a
  decoded body or an exception.
\<close>

record response =
  status :: int
  body :: "exn + json"

section \<open>First variant: the records\<close>

text \<open>
  The dicts that the fetches return, as records; a key that several dicts share or
  that clashes with a name of HOL carries a prefix. Values that the source copies
  from the decoded body without converting them stay JSON values. \<open>network_stats\<close> is
  the shape of what \<^verbatim>\<open>fetch_network_stats\<close> returns; that fetch itself is not modelled,
  the orchestrator being given the outcome of each of its tasks. A slot of the combined
  record holds what the task at that position returned.
\<close>

record price_data =
  price_usd :: json
  price_btc :: json
  market_cap :: json
  volume_24h :: json
  change_24h :: json
  price_timestamp :: string

record network_stats =
  total_supply :: json
  eth_price :: json
  latest_block :: int
  network_timestamp :: string

record block_info =
  block_number :: int
  block_hash :: json
  block_timestamp :: int
  transaction_count :: int
  gas_used :: int
  gas_limit :: int
  miner :: json
  block_size :: int

record gas_data =
  safe_gas_price :: int
  standard_gas_price :: int
  fast_gas_price :: int
  gas_timestamp :: string

record defi_metrics =
  total_value_locked :: json
  defi_timestamp :: "string option"
  defi_error :: "string option"

datatype payload =
    PriceData price_data
  | NetworkStats network_stats
  | RecentBlocks "block_info list"
  | GasData gas_data
  | DefiMetrics defi_metrics

record combined_data =
  timestamp :: string
  data_version :: string
  source :: string
  price_slot :: "payload option"
  network_slot :: "payload option"
  blocks_slot :: "payload option"
  gas_slot :: "payload option"
  defi_slot :: "payload option"
  errors :: "string list"

text \<open>
  \<^verbatim>\<open>partition_key = str(hash(data["timestamp"]) % 10)\<close>. Python's \<^verbatim>\<open>hash\<close> of a string
  is a built-in of the interpreter, salted once when the process starts; it is a
  parameter here, fixed for one process. \<open>mod\<close> on \<open>int\<close> takes the sign of the
  divisor, as Python's \<^verbatim>\<open>%\<close> does.
\<close>

definition partition_key :: "(string \<Rightarrow> int) \<Rightarrow> combined_data \<Rightarrow> string" where
  "partition_key py_hash data = str_int (py_hash (timestamp data) mod 10)"

section \<open>First variant: the source fetches\<close>

text \<open>
  Each fetch takes the reading of the clock it stores (\<open>now\<close>, the ISO string of
  \<^verbatim>\<open>datetime.now(timezone.utc)\<close>) and what its HTTP requests yield.
\<close>

definition fetch_current_price :: "string \<Rightarrow> exn + response \<Rightarrow> exn + price_data" where
  "fetch_current_price now got =
     sbind got (\<lambda>response.
       if status response = 200 then
         sbind (body response) (\<lambda>data.
         sbind (sbind (getitem data ''ethereum'') (\<lambda>e. getitem e ''usd'')) (\<lambda>usd.
         sbind (sbind (getitem data ''ethereum'') (\<lambda>e. getitem e ''btc'')) (\<lambda>btc.
         sbind (sbind (getitem data ''ethereum'') (\<lambda>e. getitem e ''usd_market_cap'')) (\<lambda>cap.
         sbind (sbind (getitem data ''ethereum'') (\<lambda>e. getitem e ''usd_24h_vol'')) (\<lambda>vol.
         sbind (sbind (getitem data ''ethereum'') (\<lambda>e. getitem e ''usd_24h_change'')) (\<lambda>change.
           Inr \<lparr>price_usd = usd, price_btc = btc, market_cap = cap, volume_24h = vol,
                change_24h = change, price_timestamp = now\<rparr>))))))
       else Inl (Exception (''Price API error: '' @ str_int (status response))))"

definition fetch_gas_tracker :: "string \<Rightarrow> exn + response \<Rightarrow> exn + gas_data" where
  "fetch_gas_tracker now got =
     sbind got (\<lambda>response.
       if status response = 200 then
         sbind (body response) (\<lambda>data.
         sbind (dict_get data ''result'' (JObj [])) (\<lambda>result.
         sbind (sbind (dict_get result ''SafeGasPrice'' (JInt 0)) py_int) (\<lambda>safe.
         sbind (sbind (dict_get result ''StandardGasPrice'' (JInt 0)) py_int) (\<lambda>standard.
         sbind (sbind (dict_get result ''FastGasPrice'' (JInt 0)) py_int) (\<lambda>fast.
           Inr \<lparr>safe_gas_price = safe, standard_gas_price = standard,
                fast_gas_price = fast, gas_timestamp = now\<rparr>)))))
       else Inl (Exception (''Gas tracker API error: '' @ str_int (status response))))"

text \<open>
  The body of the \<^verbatim>\<open>try\<close> of \<^verbatim>\<open>fetch_defi_metrics\<close>, then the function with its
  \<^verbatim>\<open>except Exception\<close>. The configuration is the module's own dict, which has the
  key \<^verbatim>\<open>"apis"\<close>, so building the header does not raise.
\<close>

definition defi_try :: "string \<Rightarrow> exn + response \<Rightarrow> exn + defi_metrics" where
  "defi_try now got =
     sbind got (\<lambda>response.
       if status response = 200 then
         sbind (body response) (\<lambda>data.
         sbind (dict_get data ''total'' (JInt 0)) (\<lambda>total.
           Inr \<lparr>total_value_locked = total, defi_timestamp = Some now, defi_error = None\<rparr>))
       else Inr \<lparr>total_value_locked = JInt 0, defi_timestamp = None,
                 defi_error = Some (''Status '' @ str_int (status response))\<rparr>)"

definition fetch_defi_metrics :: "string \<Rightarrow> exn + response \<Rightarrow> exn + defi_metrics" where
  "fetch_defi_metrics now got =
     (case defi_try now got of
        Inl e \<Rightarrow> Inr \<lparr>total_value_locked = JInt 0, defi_timestamp = None,
                       defi_error = Some (str_exn e)\<rparr>
      | Inr r \<Rightarrow> Inr r)"




section \<open>First variant: the orchestrator\<close>

text \<open>
  \<^verbatim>\<open>asyncio.gather(*tasks, return_exceptions=True)\<close> waits for every task and returns,
  in the order of the tasks, what each returned or the exception it raised. A task
  is given by its outcome.
\<close>

definition gather_return_exceptions :: "(exn + payload) list \<Rightarrow> (exn + payload) list" where
  "gather_return_exceptions tasks = tasks"

definition index :: "'a list \<Rightarrow> nat \<Rightarrow> exn + 'a" where
  "index xs i = (if i < length xs then Inr (xs ! i) else Inl (IndexError ''list index out of range''))"

text \<open>\<^verbatim>\<open>results[i] if not isinstance(results[i], Exception) else None\<close>\<close>

definition slot :: "(exn + payload) list \<Rightarrow> nat \<Rightarrow> exn + payload option" where
  "slot results i =
     sbind (index results i) (\<lambda>r. case r of Inl e \<Rightarrow> Inr None | Inr v \<Rightarrow> Inr (Some v))"

definition fetch_ethereum_data ::
  "string \<Rightarrow> exn + payload \<Rightarrow> exn + payload \<Rightarrow> exn + payload \<Rightarrow> exn + payload \<Rightarrow> exn + payload
     \<Rightarrow> exn + combined_data" where
  "fetch_ethereum_data now price network blocks gas defi =
     (let tasks = [price, network, blocks, gas, defi];
          results = gather_return_exceptions tasks
      in sbind (slot results 0) (\<lambda>r0.
         sbind (slot results 1) (\<lambda>r1.
         sbind (slot results 2) (\<lambda>r2.
         sbind (slot results 3) (\<lambda>r3.
         sbind (slot results 4) (\<lambda>r4.
           Inr \<lparr>timestamp = now, data_version = ''1.0'', source = ''ethereum_collector'',
                price_slot = r0, network_slot = r1, blocks_slot = r2, gas_slot = r3,
                defi_slot = r4,
                errors = concat (map (\<lambda>r. case r of Inl e \<Rightarrow> [str_exn e] | Inr v \<Rightarrow> []) results)\<rparr>))))))"

section \<open>First variant: delivery and the collection loop\<close>

text \<open>
  The state that the loop acts on: the lines given to the logger, the arguments of
  the calls of \<^verbatim>\<open>asyncio.sleep\<close>, and the calls made on the sink, each in order.
  Durations and clock readings are real numbers (the rounding of floats is not
  modelled). The line that reports the time of a cycle carries the number itself.
\<close>

datatype log_entry = LogInfo string | LogError string | LogCycleCompleted real

record 'd loop_state =
  logged :: "log_entry list"
  sleeps :: "real list"
  delivered :: "'d list"

record event_data =
  ed_body :: string
  ed_properties :: "(string \<times> string) list"

text \<open>
  What one tick meets: the two readings of \<^verbatim>\<open>time.time()\<close>, the clock reading and
  the outcomes of the five tasks of \<^verbatim>\<open>fetch_ethereum_data\<close>, the interpreter's
  \<^verbatim>\<open>hash\<close> and \<^verbatim>\<open>json.dumps\<close>, and the producer client: whether entering it, the
  call of \<^verbatim>\<open>send_batch\<close> and leaving it raise.
\<close>

record tick_env =
  clock_start :: real
  clock_end :: real
  cycle_now :: string
  price_task :: "exn + payload"
  network_task :: "exn + payload"
  blocks_task :: "exn + payload"
  gas_task :: "exn + payload"
  defi_task :: "exn + payload"
  py_hash :: "string \<Rightarrow> int"
  json_dumps :: "combined_data \<Rightarrow> exn + string"
  producer_enter :: "exn option"
  send_batch :: "event_data list \<Rightarrow> string \<Rightarrow> exn option"
  producer_exit :: "exn option"

type_synonym hub_state = "(event_data list \<times> string) loop_state"

text \<open>The \<^verbatim>\<open>except\<close> clause of \<^verbatim>\<open>send_to_event_hub\<close>: log and raise again.\<close>

definition send_failed :: "exn \<Rightarrow> hub_state \<Rightarrow> (exn + unit) \<times> hub_state" where
  "send_failed e st =
     (Inl e, st\<lparr>logged := logged st @ [LogError (''Failed to send data to Event Hub: '' @ str_exn e)]\<rparr>)"

definition send_to_event_hub :: "tick_env \<Rightarrow> combined_data \<Rightarrow> hub_state \<Rightarrow> (exn + unit) \<times> hub_state" where
  "send_to_event_hub env data st =
     (let key = partition_key (py_hash env) data in
      (case json_dumps env data of
         Inl e \<Rightarrow> send_failed e st
       | Inr serialized \<Rightarrow>
           (let event = \<lparr>ed_body = serialized,
                          ed_properties = [(''source'', ''ethereum_collector''), (''version'', ''1.0''),
                                           (''data_type'', ''ethereum_metrics'')]\<rparr>
            in (case producer_enter env of
                  Some e \<Rightarrow> send_failed e st
                | None \<Rightarrow>
                    (let st1 = st\<lparr>delivered := delivered st @ [([event], key)]\<rparr>
                     in (case send_batch env [event] key of
                           Some e \<Rightarrow>
                             (case producer_exit env of
                                Some e2 \<Rightarrow> send_failed e2 st1
                              | None \<Rightarrow> send_failed e st1)
                         | None \<Rightarrow>
                             (case producer_exit env of
                                Some e2 \<Rightarrow> send_failed e2 st1
                              | None \<Rightarrow>
                                  (Inr (), st1\<lparr>logged := logged st1 @
                                     [LogInfo (''Data sent to Event Hub successfully at '' @ timestamp data)]\<rparr>))))))))"

text \<open>The body of the \<^verbatim>\<open>try\<close> of one pass of \<^verbatim>\<open>while True\<close> in \<^verbatim>\<open>run_collection_loop\<close>.\<close>

definition collection_try :: "int \<Rightarrow> tick_env \<Rightarrow> hub_state \<Rightarrow> (exn + unit) \<times> hub_state" where
  "collection_try interval_seconds env st =
     (let start_time = clock_start env in
      (case fetch_ethereum_data (cycle_now env) (price_task env) (network_task env)
              (blocks_task env) (gas_task env) (defi_task env) of
         Inl e \<Rightarrow> (Inl e, st)
       | Inr data \<Rightarrow>
           (case send_to_event_hub env data st of
              (Inl e, st1) \<Rightarrow> (Inl e, st1)
            | (Inr u, st1) \<Rightarrow>
                (let processing_time = clock_end env - start_time;
                     st2 = st1\<lparr>logged := logged st1 @ [LogCycleCompleted processing_time]\<rparr>;
                     sleep_time = max 0 (real_of_int interval_seconds - processing_time)
                 in (Inr (), st2\<lparr>sleeps := sleeps st2 @ [sleep_time]\<rparr>)))))"

text \<open>
  The record that \<^verbatim>\<open>fetch_ethereum_data\<close> returns on the tasks of a tick (lemma
  \<open>fetch_ethereum_data_eq\<close> below); it is used to state properties of a tick.
\<close>

definition cycle_record :: "tick_env \<Rightarrow> combined_data" where
  "cycle_record env =
     \<lparr>timestamp = cycle_now env, data_version = ''1.0'', source = ''ethereum_collector'',
      price_slot = (case price_task env of Inl x \<Rightarrow> None | Inr v \<Rightarrow> Some v),
      network_slot = (case network_task env of Inl x \<Rightarrow> None | Inr v \<Rightarrow> Some v),
      blocks_slot = (case blocks_task env of Inl x \<Rightarrow> None | Inr v \<Rightarrow> Some v),
      gas_slot = (case gas_task env of Inl x \<Rightarrow> None | Inr v \<Rightarrow> Some v),
      defi_slot = (case defi_task env of Inl x \<Rightarrow> None | Inr v \<Rightarrow> Some v),
      errors = concat (map (\<lambda>r. case r of Inl e \<Rightarrow> [str_exn e] | Inr v \<Rightarrow> [])
                 [price_task env, network_task env, blocks_task env, gas_task env, defi_task env])\<rparr>"

text \<open>
  One pass of the loop with its \<^verbatim>\<open>except Exception\<close>. The first component is the
  exception that leaves the pass, if any.
\<close>

definition collection_tick :: "int \<Rightarrow> tick_env \<Rightarrow> hub_state \<Rightarrow> exn option \<times> hub_state" where
  "collection_tick interval_seconds env st =
     (case collection_try interval_seconds env st of
        (Inr u, st1) \<Rightarrow> (None, st1)
      | (Inl e, st1) \<Rightarrow>
          (None, st1\<lparr>logged := logged st1 @ [LogError (''Error in collection loop: '' @ str_exn e)],
                      sleeps := sleeps st1 @ [5]\<rparr>))"


section \<open>Second variant\<close>

text \<open>
  The fetches of the second variant do not look at the status. Their \<^verbatim>\<open>except\<close>
  clauses log and raise again, so the outcome is that of the body; the lines they
  log are left out.
\<close>

record price_data2 =
  p2_timestamp :: string
  p2_price_usd :: json
  p2_market_cap :: json
  p2_volume_24h :: json
  p2_change_24h :: json

definition collect_eth_price_data :: "string \<Rightarrow> exn + response \<Rightarrow> exn + price_data2" where
  "collect_eth_price_data now got =
     sbind got (\<lambda>response.
     sbind (body response) (\<lambda>data.
     sbind (sbind (getitem data ''ethereum'') (\<lambda>e. getitem e ''usd'')) (\<lambda>usd.
     sbind (sbind (getitem data ''ethereum'') (\<lambda>e. getitem e ''usd_market_cap'')) (\<lambda>cap.
     sbind (sbind (getitem data ''ethereum'') (\<lambda>e. getitem e ''usd_24h_vol'')) (\<lambda>vol.
     sbind (sbind (getitem data ''ethereum'') (\<lambda>e. getitem e ''usd_24h_change'')) (\<lambda>change.
       Inr \<lparr>p2_timestamp = now, p2_price_usd = usd, p2_market_cap = cap,
            p2_volume_24h = vol, p2_change_24h = change\<rparr>))))))"

definition collect_gas_data :: "string \<Rightarrow> exn + response \<Rightarrow> exn + gas_data" where
  "collect_gas_data now got =
     sbind got (\<lambda>response.
     sbind (body response) (\<lambda>data.
     sbind (sbind (sbind (getitem data ''result'') (\<lambda>r. getitem r ''SafeGasPrice'')) py_int) (\<lambda>safe.
     sbind (sbind (sbind (getitem data ''result'') (\<lambda>r. getitem r ''StandardGasPrice'')) py_int) (\<lambda>standard.
     sbind (sbind (sbind (getitem data ''result'') (\<lambda>r. getitem r ''FastGasPrice'')) py_int) (\<lambda>fast.
       Inr \<lparr>safe_gas_price = safe, standard_gas_price = standard,
            fast_gas_price = fast, gas_timestamp = now\<rparr>)))))"









section \<open>Outcomes of a per-block request\<close>




section \<open>Concrete inputs\<close>

text \<open>Inputs at which the properties below are evaluated.\<close>

definition ex_now :: string where
  "ex_now = ''2024-01-01T00:00:00+00:00''"

text \<open>A hash function with negative values, to exercise the sign of \<^verbatim>\<open>%\<close>.\<close>

definition ex_hash :: "string \<Rightarrow> int" where
  "ex_hash s = - int (length s) - 2"

text \<open>
  The interpreter's hash in two processes: at the timestamp of the examples, the
  values that CPython 3.11 gives when started with \<^verbatim>\<open>PYTHONHASHSEED=1\<close> and with
  \<^verbatim>\<open>PYTHONHASHSEED=2\<close> (without the variable each process draws its own salt). No
  other string is hashed in the examples.
\<close>

definition ex_hash_seed1 :: "string \<Rightarrow> int" where
  "ex_hash_seed1 s = (if s = ex_now then - 1989236991222471593 else 0)"

definition ex_hash_seed2 :: "string \<Rightarrow> int" where
  "ex_hash_seed2 s = (if s = ex_now then - 6909388563305284182 else 0)"

definition ex_record_failed :: combined_data where
  "ex_record_failed =
     \<lparr>timestamp = ex_now, data_version = ''1.0'', source = ''ethereum_collector'',
      price_slot = None, network_slot = None, blocks_slot = None, gas_slot = None,
      defi_slot = None,
      errors = [''Price API error: 500'', ''timeout'', ''timeout'', ''Gas tracker API error: 429'', ''timeout'']\<rparr>"

text \<open>A tick of the first variant in which every task raises and the sink accepts.\<close>

definition ex_env :: tick_env where
  "ex_env =
     \<lparr>clock_start = 100, clock_end = 103, cycle_now = ex_now,
      price_task = Inl (Exception ''Price API error: 500''),
      network_task = Inl (ClientError ''timeout''),
      blocks_task = Inl (ClientError ''timeout''),
      gas_task = Inl (Exception ''Gas tracker API error: 429''),
      defi_task = Inl (ClientError ''timeout''),
      py_hash = ex_hash,
      json_dumps = (\<lambda>d. Inr ''{}''),
      producer_enter = None,
      send_batch = (\<lambda>batch key. None),
      producer_exit = None\<rparr>"

text \<open>The same tick with a sink that refuses the batch, and one whose work takes 12 seconds.\<close>

definition ex_env_sink_down :: tick_env where
  "ex_env_sink_down = ex_env\<lparr>send_batch := (\<lambda>batch key. Some (SinkError ''connection refused''))\<rparr>"

definition ex_env_slow :: tick_env where
  "ex_env_slow = ex_env\<lparr>clock_end := 112\<rparr>"

definition ex_event :: event_data where
  "ex_event =
     \<lparr>ed_body = ''{}'',
      ed_properties = [(''source'', ''ethereum_collector''), (''version'', ''1.0''),
                       (''data_type'', ''ethereum_metrics'')]\<rparr>"

definition ex_state :: hub_state where
  "ex_state = \<lparr>logged = [], sleeps = [], delivered = []\<rparr>"

text \<open>The bodies of the two scenarios of the specification.\<close>

definition ex_price_body :: json where
  "ex_price_body =
     JObj [(''ethereum'',
            JObj [(''usd'', JInt 3000), (''btc'', JFloat (5 / 100)),
                  (''usd_market_cap'', JFloat 360000000000),
                  (''usd_24h_vol'', JFloat 12000000000),
                  (''usd_24h_change'', JFloat (5 / 2))])]"

definition ex_gas_body :: json where
  "ex_gas_body =
     JObj [(''result'',
            JObj [(''SafeGasPrice'', JStr ''10''), (''StandardGasPrice'', JStr ''15''),
                  (''FastGasPrice'', JStr ''25'')])]"



text \<open>
  The price body without \<open>usd_24h_change\<close>; gas bodies with one field only, with a
  field that is not a number, and the body that the explorer sends with status 200
  when it refuses a request.
\<close>

definition ex_price_body_partial :: json where
  "ex_price_body_partial =
     JObj [(''ethereum'',
            JObj [(''usd'', JInt 3000), (''btc'', JFloat (5 / 100)),
                  (''usd_market_cap'', JFloat 360000000000),
                  (''usd_24h_vol'', JFloat 12000000000)])]"














section \<open>Properties\<close>

lemma str_int_digit:
  assumes "0 \<le> n" and "n < 10"
  shows "str_int n \<in> set [''0'', ''1'', ''2'', ''3'', ''4'', ''5'', ''6'', ''7'', ''8'', ''9'']"
proof -
  from assms have "n = 0 \<or> n = 1 \<or> n = 2 \<or> n = 3 \<or> n = 4 \<or> n = 5 \<or> n = 6 \<or> n = 7 \<or> n = 8 \<or> n = 9"
    by arith
  then show ?thesis
    by (elim disjE) (simp_all add: str_int_def str_nat.simps digit_char_def)
qed

lemma send_to_event_hub_delivered:
  "delivered (snd (send_to_event_hub env data st)) = delivered st \<or>
   (\<exists>ev. delivered (snd (send_to_event_hub env data st)) =
      delivered st @ [([ev], partition_key (py_hash env) data)])"
proof (cases "json_dumps env data")
  case (Inl e)
  then show ?thesis
    by (simp add: send_to_event_hub_def send_failed_def)
next
  case (Inr ser)
  let ?ev = "\<lparr>ed_body = ser,
               ed_properties = [(''source'', ''ethereum_collector''), (''version'', ''1.0''),
                                (''data_type'', ''ethereum_metrics'')]\<rparr>"
  from Inr show ?thesis
    by (cases "producer_enter env"; cases "producer_exit env";
        cases "send_batch env [?ev] (partition_key (py_hash env) data)")
       (simp_all add: send_to_event_hub_def send_failed_def)
qed

lemma ex_key: "partition_key ex_hash ex_record_failed = ''3''"
proof -
  have "ex_hash (timestamp ex_record_failed) mod 10 = 3"
    by (simp add: ex_hash_def ex_record_failed_def ex_now_def)
  then show ?thesis
    by (simp add: partition_key_def str_int_def str_nat.simps digit_char_def)
qed

lemma ex_send:
  "send_to_event_hub ex_env ex_record_failed ex_state =
     (Inr (), \<lparr>logged = [LogInfo (''Data sent to Event Hub successfully at '' @ ex_now)],
               sleeps = [], delivered = [([ex_event], ''3'')]\<rparr>)"
proof -
  have "timestamp ex_record_failed = ex_now"
    by (simp add: ex_record_failed_def)
  then show ?thesis
    by (simp add: send_to_event_hub_def ex_key ex_env_def ex_state_def ex_event_def)
qed


lemma ex_send_slow:
  "send_to_event_hub ex_env_slow ex_record_failed ex_state =
     (Inr (), \<lparr>logged = [LogInfo (''Data sent to Event Hub successfully at '' @ ex_now)],
               sleeps = [], delivered = [([ex_event], ''3'')]\<rparr>)"
proof -
  have k: "partition_key (py_hash ex_env_slow) ex_record_failed = ''3''"
    using ex_key by (simp add: ex_env_slow_def ex_env_def)
  have "timestamp ex_record_failed = ex_now"
    by (simp add: ex_record_failed_def)
  then show ?thesis
    unfolding send_to_event_hub_def k
    by (simp add: ex_env_slow_def ex_env_def ex_state_def ex_event_def)
qed

subsection \<open>The partition key\<close>

text \<open>
  C10. The partition key computed in \<^verbatim>\<open>send_to_event_hub\<close> is one of the ten
  one-character strings "0" ... "9", whatever the timestamp and whatever the
  interpreter's hash function; and every call of \<^verbatim>\<open>send_batch\<close> that a delivery makes
  carries such a key.
\<close>

theorem partition_key_single_digit:
  "partition_key h data \<in> set [''0'', ''1'', ''2'', ''3'', ''4'', ''5'', ''6'', ''7'', ''8'', ''9''] \<and>
   (\<forall>c \<in> set (delivered (snd (send_to_event_hub env data (st\<lparr>delivered := []\<rparr>)))).
      snd c \<in> set [''0'', ''1'', ''2'', ''3'', ''4'', ''5'', ''6'', ''7'', ''8'', ''9''])"
proof -
  have key: "partition_key g d \<in> set [''0'', ''1'', ''2'', ''3'', ''4'', ''5'', ''6'', ''7'', ''8'', ''9'']"
    for g d
    unfolding partition_key_def by (rule str_int_digit) simp_all
  let ?st = "st\<lparr>delivered := []\<rparr>"
  let ?D = "delivered (snd (send_to_event_hub env data ?st))"
  from send_to_event_hub_delivered [of env data ?st]
  have "?D = [] \<or> (\<exists>ev. ?D = [([ev], partition_key (py_hash env) data)])"
    by simp
  then have "\<forall>c \<in> set ?D. snd c = partition_key (py_hash env) data"
    by (elim disjE exE) simp_all
  with key [of "py_hash env" data]
  have "\<forall>c \<in> set ?D. snd c \<in> set [''0'', ''1'', ''2'', ''3'', ''4'', ''5'', ''6'', ''7'', ''8'', ''9'']"
    by metis
  with key [of h data] show ?thesis
    by (rule_tac conjI)
qed

theorem partition_key_single_digit_witness:
  "([ex_event], ''3'') \<in> set (delivered (snd (send_to_event_hub ex_env ex_record_failed (ex_state\<lparr>delivered := []\<rparr>)))) \<and>
   snd ([ex_event], ''3'') \<in> set [''0'', ''1'', ''2'', ''3'', ''4'', ''5'', ''6'', ''7'', ''8'', ''9'']"
proof -
  have st: "ex_state\<lparr>delivered := []\<rparr> = ex_state"
    by (simp add: ex_state_def)
  have "([ex_event], ''3'') \<in> set (delivered (snd (send_to_event_hub ex_env ex_record_failed (ex_state\<lparr>delivered := []\<rparr>))))"
    by (simp add: st ex_send)
  with partition_key_single_digit [of ex_hash ex_record_failed ex_env ex_state]
  show ?thesis by blast
qed

text \<open>
  Within one process, that is for one hash function, the key depends on the record
  only through its timestamp, and two deliveries of records with the same timestamp
  call \<^verbatim>\<open>send_batch\<close> with the same key.
\<close>

lemma partition_key_same_process:
  "timestamp d1 = timestamp d2 \<Longrightarrow> py_hash env1 = py_hash env2 \<Longrightarrow>
     partition_key h d1 = partition_key h d2 \<and>
     (\<forall>c1 \<in> set (delivered (snd (send_to_event_hub env1 d1 (st1\<lparr>delivered := []\<rparr>)))).
      \<forall>c2 \<in> set (delivered (snd (send_to_event_hub env2 d2 (st2\<lparr>delivered := []\<rparr>)))).
        snd c1 = snd c2)"
proof -
  assume ts: "timestamp d1 = timestamp d2" and same: "py_hash env1 = py_hash env2"
  have keys: "partition_key g d1 = partition_key g d2" for g
    using ts by (simp add: partition_key_def)
  let ?D1 = "delivered (snd (send_to_event_hub env1 d1 (st1\<lparr>delivered := []\<rparr>)))"
  let ?D2 = "delivered (snd (send_to_event_hub env2 d2 (st2\<lparr>delivered := []\<rparr>)))"
  from send_to_event_hub_delivered [of env1 d1 "st1\<lparr>delivered := []\<rparr>"]
  have "?D1 = [] \<or> (\<exists>ev. ?D1 = [([ev], partition_key (py_hash env1) d1)])"
    by simp
  then have one: "\<forall>c \<in> set ?D1. snd c = partition_key (py_hash env1) d1"
    by (elim disjE exE) simp_all
  from send_to_event_hub_delivered [of env2 d2 "st2\<lparr>delivered := []\<rparr>"]
  have "?D2 = [] \<or> (\<exists>ev. ?D2 = [([ev], partition_key (py_hash env2) d2)])"
    by simp
  then have two: "\<forall>c \<in> set ?D2. snd c = partition_key (py_hash env2) d2"
    by (elim disjE exE) simp_all
  from one two same keys [of "py_hash env2"]
  have "\<forall>c1 \<in> set ?D1. \<forall>c2 \<in> set ?D2. snd c1 = snd c2"
    by metis
  with keys [of h] show ?thesis
    by (rule_tac conjI)
qed

text \<open>
  C2. The key is to be a function of the timestamp alone, so that a record delivered
  again is routed as before. The code derives it with the interpreter's hash of a
  string, which CPython salts anew in every process: in two processes, whose hashes
  of the timestamp are those of \<open>ex_hash_seed1\<close> and \<open>ex_hash_seed2\<close>, the same record
  gets the keys \<open>7\<close> and \<open>8\<close>, and its two deliveries call \<^verbatim>\<open>send_batch\<close> with these
  different keys. The derivation is deterministic within one process only.
\<close>

theorem partition_key_differs_between_processes:
  "partition_key ex_hash_seed1 ex_record_failed = ''7'' \<and>
   partition_key ex_hash_seed2 ex_record_failed = ''8'' \<and>
   delivered (snd (send_to_event_hub (ex_env\<lparr>py_hash := ex_hash_seed1\<rparr>) ex_record_failed ex_state)) =
     [([ex_event], ''7'')] \<and>
   delivered (snd (send_to_event_hub (ex_env\<lparr>py_hash := ex_hash_seed2\<rparr>) ex_record_failed ex_state)) =
     [([ex_event], ''8'')]"
proof -
  have ts: "timestamp ex_record_failed = ex_now"
    by (simp add: ex_record_failed_def)
  have "ex_hash_seed1 (timestamp ex_record_failed) mod 10 = 7"
    by (simp add: ts ex_hash_seed1_def)
  then have k1: "partition_key ex_hash_seed1 ex_record_failed = ''7''"
    by (simp add: partition_key_def str_int_def str_nat.simps digit_char_def)
  have "ex_hash_seed2 (timestamp ex_record_failed) mod 10 = 8"
    by (simp add: ts ex_hash_seed2_def)
  then have k2: "partition_key ex_hash_seed2 ex_record_failed = ''8''"
    by (simp add: partition_key_def str_int_def str_nat.simps digit_char_def)
  have p1: "partition_key (py_hash (ex_env\<lparr>py_hash := ex_hash_seed1\<rparr>)) ex_record_failed = ''7''"
    using k1 by simp
  have p2: "partition_key (py_hash (ex_env\<lparr>py_hash := ex_hash_seed2\<rparr>)) ex_record_failed = ''8''"
    using k2 by simp
  have s1: "delivered (snd (send_to_event_hub (ex_env\<lparr>py_hash := ex_hash_seed1\<rparr>)
                              ex_record_failed ex_state)) = [([ex_event], ''7'')]"
    unfolding send_to_event_hub_def p1
    by (simp add: ex_env_def ex_state_def ex_event_def)
  have s2: "delivered (snd (send_to_event_hub (ex_env\<lparr>py_hash := ex_hash_seed2\<rparr>)
                              ex_record_failed ex_state)) = [([ex_event], ''8'')]"
    unfolding send_to_event_hub_def p2
    by (simp add: ex_env_def ex_state_def ex_event_def)
  from k1 k2 s1 s2 show ?thesis by simp
qed

subsection \<open>The orchestrator\<close>

lemma slot_simps:
  "slot [a, b, c, d, e] 0 = Inr (case a of Inl x \<Rightarrow> None | Inr v \<Rightarrow> Some v)"
  "slot [a, b, c, d, e] (Suc 0) = Inr (case b of Inl x \<Rightarrow> None | Inr v \<Rightarrow> Some v)"
  "slot [a, b, c, d, e] 2 = Inr (case c of Inl x \<Rightarrow> None | Inr v \<Rightarrow> Some v)"
  "slot [a, b, c, d, e] 3 = Inr (case d of Inl x \<Rightarrow> None | Inr v \<Rightarrow> Some v)"
  "slot [a, b, c, d, e] 4 = Inr (case e of Inl x \<Rightarrow> None | Inr v \<Rightarrow> Some v)"
  by (simp_all add: slot_def index_def sbind_def split: sum.split)

lemma fetch_ethereum_data_eq:
  "fetch_ethereum_data now p n b g d =
     Inr \<lparr>timestamp = now, data_version = ''1.0'', source = ''ethereum_collector'',
          price_slot = (case p of Inl x \<Rightarrow> None | Inr v \<Rightarrow> Some v),
          network_slot = (case n of Inl x \<Rightarrow> None | Inr v \<Rightarrow> Some v),
          blocks_slot = (case b of Inl x \<Rightarrow> None | Inr v \<Rightarrow> Some v),
          gas_slot = (case g of Inl x \<Rightarrow> None | Inr v \<Rightarrow> Some v),
          defi_slot = (case d of Inl x \<Rightarrow> None | Inr v \<Rightarrow> Some v),
          errors = concat (map (\<lambda>r. case r of Inl e \<Rightarrow> [str_exn e] | Inr v \<Rightarrow> []) [p, n, b, g, d])\<rparr>"
  by (simp add: fetch_ethereum_data_def gather_return_exceptions_def slot_simps sbind_def Let_def)

lemma errors_of_task_length:
  "length (case r of Inl e \<Rightarrow> [str_exn e] | Inr v \<Rightarrow> []) = (if isl r then 1 else 0)"
  by (cases r) simp_all

lemma slot_of_task_None:
  "((case x of Inl e \<Rightarrow> None | Inr v \<Rightarrow> Some v) = None) = isl x"
  by (cases x) simp_all

text \<open>
  C1. \<^verbatim>\<open>fetch_ethereum_data\<close> returns a record whatever the five tasks do: a slot is
  null exactly when its task raised, and the errors hold one string for each task
  that raised. When all five raise, every slot is null and the errors are the five
  messages in the order of the tasks.
\<close>

theorem fetch_ethereum_data_always_returns:
  "(\<exists>r. fetch_ethereum_data now p n b g d = Inr r \<and>
        length (errors r) = length (filter isl [p, n, b, g, d]) \<and>
        (price_slot r = None) = isl p \<and>
        (network_slot r = None) = isl n \<and>
        (blocks_slot r = None) = isl b \<and>
        (gas_slot r = None) = isl g \<and>
        (defi_slot r = None) = isl d) \<and>
   fetch_ethereum_data now (Inl e0) (Inl e1) (Inl e2) (Inl e3) (Inl e4) =
     Inr \<lparr>timestamp = now, data_version = ''1.0'', source = ''ethereum_collector'',
          price_slot = None, network_slot = None, blocks_slot = None, gas_slot = None,
          defi_slot = None,
          errors = [str_exn e0, str_exn e1, str_exn e2, str_exn e3, str_exn e4]\<rparr>"
proof (rule conjI)
  show "\<exists>r. fetch_ethereum_data now p n b g d = Inr r \<and>
        length (errors r) = length (filter isl [p, n, b, g, d]) \<and>
        (price_slot r = None) = isl p \<and>
        (network_slot r = None) = isl n \<and>
        (blocks_slot r = None) = isl b \<and>
        (gas_slot r = None) = isl g \<and>
        (defi_slot r = None) = isl d"
    by (simp add: fetch_ethereum_data_eq slot_of_task_None errors_of_task_length)
  show "fetch_ethereum_data now (Inl e0) (Inl e1) (Inl e2) (Inl e3) (Inl e4) =
     Inr \<lparr>timestamp = now, data_version = ''1.0'', source = ''ethereum_collector'',
          price_slot = None, network_slot = None, blocks_slot = None, gas_slot = None,
          defi_slot = None,
          errors = [str_exn e0, str_exn e1, str_exn e2, str_exn e3, str_exn e4]\<rparr>"
    by (simp add: fetch_ethereum_data_eq)
qed

subsection \<open>The DeFi metrics\<close>

lemma defi_try_cases:
  "defi_try now (Inl e) = Inl e"
  "status resp \<noteq> 200 \<Longrightarrow> defi_try now (Inr resp) =
     Inr \<lparr>total_value_locked = JInt 0, defi_timestamp = None,
          defi_error = Some (''Status '' @ str_int (status resp))\<rparr>"
  "status resp = 200 \<Longrightarrow> body resp = Inl e \<Longrightarrow> defi_try now (Inr resp) = Inl e"
  by (simp_all add: defi_try_def sbind_def)

text \<open>
  C7. \<^verbatim>\<open>fetch_defi_metrics\<close> always returns a record. On a status other than 200 the
  record has \<open>total_value_locked = 0\<close> and the error \<open>Status <status>\<close>; when anything
  in its \<^verbatim>\<open>try\<close> raises, the record has \<open>total_value_locked = 0\<close> and the text of the
  exception as its error. A request that raises and a body that cannot be decoded
  are such exceptions.
\<close>

theorem fetch_defi_metrics_never_raises:
  "(\<exists>r. fetch_defi_metrics now got = Inr r) \<and>
   (\<forall>resp. got = Inr resp \<and> status resp \<noteq> 200 \<longrightarrow>
      fetch_defi_metrics now got =
        Inr \<lparr>total_value_locked = JInt 0, defi_timestamp = None,
             defi_error = Some (''Status '' @ str_int (status resp))\<rparr>) \<and>
   (\<forall>e. defi_try now got = Inl e \<longrightarrow>
      fetch_defi_metrics now got =
        Inr \<lparr>total_value_locked = JInt 0, defi_timestamp = None,
             defi_error = Some (str_exn e)\<rparr>) \<and>
   (\<forall>e. got = Inl e \<longrightarrow> defi_try now got = Inl e) \<and>
   (\<forall>resp e. got = Inr resp \<and> status resp = 200 \<and> body resp = Inl e \<longrightarrow>
      defi_try now got = Inl e)"
proof (intro conjI allI impI)
  show "\<exists>r. fetch_defi_metrics now got = Inr r"
    by (cases "defi_try now got") (simp_all add: fetch_defi_metrics_def)
qed (auto simp: fetch_defi_metrics_def defi_try_cases)

theorem fetch_defi_metrics_never_raises_witness:
  "fetch_defi_metrics ex_now (Inr \<lparr>status = 503, body = Inr (JObj [(''total'', JInt 7)])\<rparr>) =
     Inr \<lparr>total_value_locked = JInt 0, defi_timestamp = None, defi_error = Some ''Status 503''\<rparr> \<and>
   fetch_defi_metrics ex_now (Inl (ClientError ''timeout'')) =
     Inr \<lparr>total_value_locked = JInt 0, defi_timestamp = None, defi_error = Some ''timeout''\<rparr> \<and>
   fetch_defi_metrics ex_now (Inr \<lparr>status = 200, body = Inl (ClientError ''not JSON'')\<rparr>) =
     Inr \<lparr>total_value_locked = JInt 0, defi_timestamp = None, defi_error = Some ''not JSON''\<rparr>"
proof -
  have s: "str_int 503 = ''503''"
    by (simp add: str_int_def str_nat.simps digit_char_def)
  from fetch_defi_metrics_never_raises [of ex_now "Inr \<lparr>status = 503, body = Inr (JObj [(''total'', JInt 7)])\<rparr>"]
  have a: "fetch_defi_metrics ex_now (Inr \<lparr>status = 503, body = Inr (JObj [(''total'', JInt 7)])\<rparr>) =
     Inr \<lparr>total_value_locked = JInt 0, defi_timestamp = None, defi_error = Some ''Status 503''\<rparr>"
    by (simp add: s)
  from fetch_defi_metrics_never_raises [of ex_now "Inl (ClientError ''timeout'')"]
  have b: "fetch_defi_metrics ex_now (Inl (ClientError ''timeout'')) =
     Inr \<lparr>total_value_locked = JInt 0, defi_timestamp = None, defi_error = Some ''timeout''\<rparr>"
    by simp
  from fetch_defi_metrics_never_raises [of ex_now "Inr \<lparr>status = 200, body = Inl (ClientError ''not JSON'')\<rparr>"]
  have c: "fetch_defi_metrics ex_now (Inr \<lparr>status = 200, body = Inl (ClientError ''not JSON'')\<rparr>) =
     Inr \<lparr>total_value_locked = JInt 0, defi_timestamp = None, defi_error = Some ''not JSON''\<rparr>"
    by simp
  from a b c show ?thesis by simp
qed

subsection \<open>The price fetch\<close>

lemma price_object:
  assumes "status resp = 200" and "body resp = Inr (JObj obj)"
    and "map_of obj ''ethereum'' = Some e"
  shows "fetch_current_price now (Inr resp) =
          sbind (getitem e ''usd'') (\<lambda>usd.
          sbind (getitem e ''btc'') (\<lambda>btc.
          sbind (getitem e ''usd_market_cap'') (\<lambda>cap.
          sbind (getitem e ''usd_24h_vol'') (\<lambda>vol.
          sbind (getitem e ''usd_24h_change'') (\<lambda>change.
            Inr \<lparr>price_usd = usd, price_btc = btc, market_cap = cap, volume_24h = vol,
                 change_24h = change, price_timestamp = now\<rparr>)))))"
proof -
  have g: "getitem (JObj obj) ''ethereum'' = Inr e"
    using assms(3) by simp
  show ?thesis
    using assms(1,2) g
    by (simp add: fetch_current_price_def sbind_def del: getitem.simps cong: sum.case_cong)
qed

lemma price_no_ethereum:
  assumes "status resp = 200" and "body resp = Inr (JObj obj)"
    and "map_of obj ''ethereum'' = None"
  shows "fetch_current_price now (Inr resp) = Inl (KeyError ''ethereum'')"
proof -
  have g: "getitem (JObj obj) ''ethereum'' = Inl (KeyError ''ethereum'')"
    using assms(3) by simp
  show ?thesis
    using assms(1,2) g
    by (simp add: fetch_current_price_def sbind_def del: getitem.simps cong: sum.case_cong)
qed

lemma price_missing_key:
  assumes "status resp = 200" and "body resp = Inr (JObj obj)"
    and "map_of obj ''ethereum'' = Some (JObj inner)"
    and "k \<in> set [''usd'', ''btc'', ''usd_market_cap'', ''usd_24h_vol'', ''usd_24h_change'']"
    and "map_of inner k = None"
  shows "\<exists>k' \<in> set [''usd'', ''btc'', ''usd_market_cap'', ''usd_24h_vol'', ''usd_24h_change''].
           map_of inner k' = None \<and> fetch_current_price now (Inr resp) = Inl (KeyError k')"
proof -
  note eq = price_object [OF assms(1,2,3), of now]
  show ?thesis
  proof (cases "map_of inner ''usd''")
    case None
    then show ?thesis by (simp add: eq sbind_def)
  next
    case usd: (Some a)
    show ?thesis
    proof (cases "map_of inner ''btc''")
      case None
      with usd show ?thesis by (simp add: eq sbind_def)
    next
      case btc: (Some b)
      show ?thesis
      proof (cases "map_of inner ''usd_market_cap''")
        case None
        with usd btc show ?thesis by (simp add: eq sbind_def)
      next
        case cap: (Some c)
        show ?thesis
        proof (cases "map_of inner ''usd_24h_vol''")
          case None
          with usd btc cap show ?thesis by (simp add: eq sbind_def)
        next
          case vol: (Some d)
          show ?thesis
          proof (cases "map_of inner ''usd_24h_change''")
            case None
            with usd btc cap vol show ?thesis by (simp add: eq sbind_def)
          next
            case (Some e)
            with usd btc cap vol assms(4,5) show ?thesis by auto
          qed
        qed
      qed
    qed
  qed
qed

lemma price2_object:
  assumes "body resp = Inr (JObj obj)" and "map_of obj ''ethereum'' = Some e"
  shows "collect_eth_price_data now (Inr resp) =
          sbind (getitem e ''usd'') (\<lambda>usd.
          sbind (getitem e ''usd_market_cap'') (\<lambda>cap.
          sbind (getitem e ''usd_24h_vol'') (\<lambda>vol.
          sbind (getitem e ''usd_24h_change'') (\<lambda>change.
            Inr \<lparr>p2_timestamp = now, p2_price_usd = usd, p2_market_cap = cap,
                 p2_volume_24h = vol, p2_change_24h = change\<rparr>))))"
proof -
  have g: "getitem (JObj obj) ''ethereum'' = Inr e"
    using assms(2) by simp
  show ?thesis
    using assms(1) g
    by (simp add: collect_eth_price_data_def sbind_def del: getitem.simps cong: sum.case_cong)
qed

lemma price2_missing_key:
  assumes "body resp = Inr (JObj obj)"
    and "map_of obj ''ethereum'' = Some (JObj inner)"
    and "k \<in> set [''usd'', ''usd_market_cap'', ''usd_24h_vol'', ''usd_24h_change'']"
    and "map_of inner k = None"
  shows "\<exists>k' \<in> set [''usd'', ''usd_market_cap'', ''usd_24h_vol'', ''usd_24h_change''].
           map_of inner k' = None \<and> collect_eth_price_data now (Inr resp) = Inl (KeyError k')"
proof -
  note eq = price2_object [OF assms(1,2), of now]
  show ?thesis
  proof (cases "map_of inner ''usd''")
    case None
    then show ?thesis by (simp add: eq sbind_def)
  next
    case usd: (Some a)
    show ?thesis
    proof (cases "map_of inner ''usd_market_cap''")
      case None
      with usd show ?thesis by (simp add: eq sbind_def)
    next
      case cap: (Some c)
      show ?thesis
      proof (cases "map_of inner ''usd_24h_vol''")
        case None
        with usd cap show ?thesis by (simp add: eq sbind_def)
      next
        case vol: (Some d)
        show ?thesis
        proof (cases "map_of inner ''usd_24h_change''")
          case None
          with usd cap vol show ?thesis by (simp add: eq sbind_def)
        next
          case (Some e)
          with usd cap vol assms(3,4) show ?thesis by auto
        qed
      qed
    qed
  qed
qed

lemma price_non200:
  "status resp \<noteq> 200 \<Longrightarrow>
     fetch_current_price now (Inr resp) = Inl (Exception (''Price API error: '' @ str_int (status resp)))"
  by (simp add: fetch_current_price_def sbind_def)

lemma ex_fetch_current_price:
  "fetch_current_price now (Inr \<lparr>status = 200, body = Inr ex_price_body\<rparr>) =
     Inr \<lparr>price_usd = JInt 3000, price_btc = JFloat (5 / 100),
          market_cap = JFloat 360000000000, volume_24h = JFloat 12000000000,
          change_24h = JFloat (5 / 2), price_timestamp = now\<rparr>"
  by (simp add: fetch_current_price_def sbind_def ex_price_body_def)

lemma ex_collect_eth_price_data:
  "collect_eth_price_data now (Inr \<lparr>status = s, body = Inr ex_price_body\<rparr>) =
     Inr \<lparr>p2_timestamp = now, p2_price_usd = JInt 3000,
          p2_market_cap = JFloat 360000000000, p2_volume_24h = JFloat 12000000000,
          p2_change_24h = JFloat (5 / 2)\<rparr>"
  by (simp add: collect_eth_price_data_def sbind_def ex_price_body_def)

text \<open>
  C4 as stated fails on the second variant, which does not look at the status: a
  response with status 500 and the body of the scenario gives a record.
\<close>

theorem price_non200_counterexample:
  "status \<lparr>status = 500, body = Inr ex_price_body\<rparr> \<noteq> 200 \<and>
   collect_eth_price_data ex_now (Inr \<lparr>status = 500, body = Inr ex_price_body\<rparr>) =
     Inr \<lparr>p2_timestamp = ex_now, p2_price_usd = JInt 3000,
          p2_market_cap = JFloat 360000000000, p2_volume_24h = JFloat 12000000000,
          p2_change_24h = JFloat (5 / 2)\<rparr>"
  by (simp add: ex_collect_eth_price_data)

text \<open>
  C4, amended. First variant: with status 200 and the body of the scenario the fetch
  returns the five values of the scenario; with any other status it fails with
  \<open>Price API error: <status>\<close>; with status 200 and an object that lacks
  \<open>ethereum\<close>, or whose \<open>ethereum\<close> object lacks one of the five keys, it fails with the
  \<^verbatim>\<open>KeyError\<close> of a missing key. Second variant: the status is not inspected; with the
  body of the scenario the fetch returns the four values it reads (no \<open>price_btc\<close>) at
  every status, and it fails with the \<^verbatim>\<open>KeyError\<close> of a missing key when the
  \<open>ethereum\<close> object lacks one of the four keys.
\<close>

theorem price_fetch_mapping:
  "fetch_current_price now (Inr \<lparr>status = 200, body = Inr ex_price_body\<rparr>) =
     Inr \<lparr>price_usd = JInt 3000, price_btc = JFloat (5 / 100),
          market_cap = JFloat 360000000000, volume_24h = JFloat 12000000000,
          change_24h = JFloat (5 / 2), price_timestamp = now\<rparr> \<and>
   (status resp \<noteq> 200 \<longrightarrow>
      fetch_current_price now (Inr resp) =
        Inl (Exception (''Price API error: '' @ str_int (status resp)))) \<and>
   (status resp = 200 \<and> body resp = Inr (JObj obj) \<and> map_of obj ''ethereum'' = None \<longrightarrow>
      fetch_current_price now (Inr resp) = Inl (KeyError ''ethereum'')) \<and>
   (status resp = 200 \<and> body resp = Inr (JObj obj) \<and> map_of obj ''ethereum'' = Some (JObj inner) \<and>
    k \<in> set [''usd'', ''btc'', ''usd_market_cap'', ''usd_24h_vol'', ''usd_24h_change''] \<and>
    map_of inner k = None \<longrightarrow>
      (\<exists>k' \<in> set [''usd'', ''btc'', ''usd_market_cap'', ''usd_24h_vol'', ''usd_24h_change''].
         map_of inner k' = None \<and> fetch_current_price now (Inr resp) = Inl (KeyError k'))) \<and>
   collect_eth_price_data now (Inr \<lparr>status = s, body = Inr ex_price_body\<rparr>) =
     Inr \<lparr>p2_timestamp = now, p2_price_usd = JInt 3000,
          p2_market_cap = JFloat 360000000000, p2_volume_24h = JFloat 12000000000,
          p2_change_24h = JFloat (5 / 2)\<rparr> \<and>
   (body resp = Inr (JObj obj) \<and> map_of obj ''ethereum'' = Some (JObj inner) \<and>
    kk \<in> set [''usd'', ''usd_market_cap'', ''usd_24h_vol'', ''usd_24h_change''] \<and>
    map_of inner kk = None \<longrightarrow>
      (\<exists>k' \<in> set [''usd'', ''usd_market_cap'', ''usd_24h_vol'', ''usd_24h_change''].
         map_of inner k' = None \<and> collect_eth_price_data now (Inr resp) = Inl (KeyError k')))"
  using ex_fetch_current_price [of now] price_non200 [of resp now]
        price_no_ethereum [of resp obj now] price_missing_key [of resp obj inner k now]
        ex_collect_eth_price_data [of now s] price2_missing_key [of resp obj inner kk now]
  by blast

theorem price_fetch_mapping_witness:
  "fetch_current_price ex_now (Inr \<lparr>status = 500, body = Inl (ClientError ''not JSON'')\<rparr>) =
     Inl (Exception ''Price API error: 500'') \<and>
   fetch_current_price ex_now (Inr \<lparr>status = 200, body = Inr (JObj [])\<rparr>) =
     Inl (KeyError ''ethereum'') \<and>
   fetch_current_price ex_now (Inr \<lparr>status = 200, body = Inr ex_price_body_partial\<rparr>) =
     Inl (KeyError ''usd_24h_change'') \<and>
   collect_eth_price_data ex_now (Inr \<lparr>status = 500, body = Inr ex_price_body_partial\<rparr>) =
     Inl (KeyError ''usd_24h_change'')"
proof -
  let ?inner = "[(''usd'', JInt 3000), (''btc'', JFloat (5 / 100)),
                 (''usd_market_cap'', JFloat 360000000000),
                 (''usd_24h_vol'', JFloat 12000000000)]"
  have s: "str_int 500 = ''500''"
    by (simp add: str_int_def str_nat.simps digit_char_def)
  from price_fetch_mapping [of ex_now "\<lparr>status = 500, body = Inl (ClientError ''not JSON'')\<rparr>"]
  have a: "fetch_current_price ex_now (Inr \<lparr>status = 500, body = Inl (ClientError ''not JSON'')\<rparr>) =
     Inl (Exception ''Price API error: 500'')"
    by (simp add: s)
  from price_fetch_mapping [of ex_now "\<lparr>status = 200, body = Inr (JObj [])\<rparr>" "[]"]
  have b: "fetch_current_price ex_now (Inr \<lparr>status = 200, body = Inr (JObj [])\<rparr>) =
     Inl (KeyError ''ethereum'')"
    by simp
  from price_fetch_mapping [of ex_now "\<lparr>status = 200, body = Inr ex_price_body_partial\<rparr>"
      "[(''ethereum'', JObj ?inner)]" ?inner "''usd_24h_change''"]
  have c: "fetch_current_price ex_now (Inr \<lparr>status = 200, body = Inr ex_price_body_partial\<rparr>) =
     Inl (KeyError ''usd_24h_change'')"
    by (simp add: ex_price_body_partial_def)
  from price_fetch_mapping [where now = ex_now
      and resp = "\<lparr>status = 500, body = Inr ex_price_body_partial\<rparr>"
      and obj = "[(''ethereum'', JObj ?inner)]" and inner = ?inner and kk = "''usd_24h_change''"]
  have d: "collect_eth_price_data ex_now (Inr \<lparr>status = 500, body = Inr ex_price_body_partial\<rparr>) =
     Inl (KeyError ''usd_24h_change'')"
    by (simp add: ex_price_body_partial_def)
  from a b c d show ?thesis by simp
qed

subsection \<open>The gas fetch\<close>

lemma str_parse_examples:
  "parse_int 10 ''10'' = Some 10" "parse_int 10 ''15'' = Some 15" "parse_int 10 ''25'' = Some 25"
  "parse_int 10 ''high'' = None"
  by (simp_all add: parse_int_def strip_sign_def is_space_def is_digit_def digit_val_def digits_value_def)

lemma gas_non200:
  "status resp \<noteq> 200 \<Longrightarrow>
     fetch_gas_tracker now (Inr resp) =
       Inl (Exception (''Gas tracker API error: '' @ str_int (status resp)))"
  by (simp add: fetch_gas_tracker_def sbind_def)

lemma ex_fetch_gas_tracker:
  "fetch_gas_tracker now (Inr \<lparr>status = 200, body = Inr ex_gas_body\<rparr>) =
     Inr \<lparr>safe_gas_price = 10, standard_gas_price = 15, fast_gas_price = 25, gas_timestamp = now\<rparr>"
  by (simp add: fetch_gas_tracker_def sbind_def ex_gas_body_def str_parse_examples cong: sum.case_cong)

lemma ex_collect_gas_data:
  "collect_gas_data now (Inr \<lparr>status = s, body = Inr ex_gas_body\<rparr>) =
     Inr \<lparr>safe_gas_price = 10, standard_gas_price = 15, fast_gas_price = 25, gas_timestamp = now\<rparr>"
  by (simp add: collect_gas_data_def sbind_def ex_gas_body_def str_parse_examples cong: sum.case_cong)

lemma gas2_raises:
  "collect_gas_data now (Inl e) = Inl e"
  "body resp = Inl e \<Longrightarrow> collect_gas_data now (Inr resp) = Inl e"
  "body resp = Inr (JObj obj) \<Longrightarrow> map_of obj ''result'' = None \<Longrightarrow>
     collect_gas_data now (Inr resp) = Inl (KeyError ''result'')"
  by (simp_all add: collect_gas_data_def sbind_def)

text \<open>
  C5 as stated fails on the second variant, which does not look at the status: a
  response with status 500 and the body of the scenario gives a record.
\<close>

theorem gas_non200_counterexample:
  "status \<lparr>status = 500, body = Inr ex_gas_body\<rparr> \<noteq> 200 \<and>
   collect_gas_data ex_now (Inr \<lparr>status = 500, body = Inr ex_gas_body\<rparr>) =
     Inr \<lparr>safe_gas_price = 10, standard_gas_price = 15, fast_gas_price = 25,
          gas_timestamp = ex_now\<rparr>"
  by (simp add: ex_collect_gas_data)

text \<open>
  C5, amended. First variant: with status 200 and the body of the scenario the fetch
  returns 10, 15 and 25 as integers, and with any other status it fails with
  \<open>Gas tracker API error: <status>\<close>. Second variant: the status is not inspected;
  the body of the scenario gives 10, 15 and 25 at every status, and the fetch fails
  when the request raises, when the body cannot be decoded, and when the object has
  no \<open>result\<close>.
\<close>

theorem gas_fetch_mapping:
  "fetch_gas_tracker now (Inr \<lparr>status = 200, body = Inr ex_gas_body\<rparr>) =
     Inr \<lparr>safe_gas_price = 10, standard_gas_price = 15, fast_gas_price = 25, gas_timestamp = now\<rparr> \<and>
   (status resp \<noteq> 200 \<longrightarrow>
      fetch_gas_tracker now (Inr resp) =
        Inl (Exception (''Gas tracker API error: '' @ str_int (status resp)))) \<and>
   collect_gas_data now (Inr \<lparr>status = s, body = Inr ex_gas_body\<rparr>) =
     Inr \<lparr>safe_gas_price = 10, standard_gas_price = 15, fast_gas_price = 25, gas_timestamp = now\<rparr> \<and>
   collect_gas_data now (Inl e) = Inl e \<and>
   (body resp = Inl e \<longrightarrow> collect_gas_data now (Inr resp) = Inl e) \<and>
   (body resp = Inr (JObj obj) \<and> map_of obj ''result'' = None \<longrightarrow>
      collect_gas_data now (Inr resp) = Inl (KeyError ''result''))"
  using ex_fetch_gas_tracker [of now] gas_non200 [of resp now] ex_collect_gas_data [of now s]
        gas2_raises(1) [of now e] gas2_raises(2) [of resp e now] gas2_raises(3) [of resp obj now]
  by blast

theorem gas_fetch_mapping_witness:
  "fetch_gas_tracker ex_now (Inr \<lparr>status = 500, body = Inr ex_gas_body\<rparr>) =
     Inl (Exception ''Gas tracker API error: 500'') \<and>
   collect_gas_data ex_now (Inr \<lparr>status = 200, body = Inl (ClientError ''not JSON'')\<rparr>) =
     Inl (ClientError ''not JSON'') \<and>
   collect_gas_data ex_now (Inr \<lparr>status = 200, body = Inr (JObj [])\<rparr>) =
     Inl (KeyError ''result'')"
proof -
  have s: "str_int 500 = ''500''"
    by (simp add: str_int_def str_nat.simps digit_char_def)
  from gas_fetch_mapping [of ex_now "\<lparr>status = 500, body = Inr ex_gas_body\<rparr>"]
  have a: "fetch_gas_tracker ex_now (Inr \<lparr>status = 500, body = Inr ex_gas_body\<rparr>) =
     Inl (Exception ''Gas tracker API error: 500'')"
    by (simp add: s)
  from gas_fetch_mapping [where now = ex_now
      and resp = "\<lparr>status = 200, body = Inl (ClientError ''not JSON'')\<rparr>"
      and e = "ClientError ''not JSON''"]
  have b: "collect_gas_data ex_now (Inr \<lparr>status = 200, body = Inl (ClientError ''not JSON'')\<rparr>) =
     Inl (ClientError ''not JSON'')"
    by simp
  from gas_fetch_mapping [where now = ex_now
      and resp = "\<lparr>status = 200, body = Inr (JObj [])\<rparr>" and obj = "[]"]
  have c: "collect_gas_data ex_now (Inr \<lparr>status = 200, body = Inr (JObj [])\<rparr>) =
     Inl (KeyError ''result'')"
    by simp
  from a b c show ?thesis by simp
qed







subsection \<open>The recent blocks\<close>






















subsection \<open>The collection loops\<close>

lemma send_to_event_hub_sleeps:
  "sleeps (snd (send_to_event_hub env data st)) = sleeps st"
proof (cases "json_dumps env data")
  case (Inl e)
  then show ?thesis
    by (simp add: send_to_event_hub_def send_failed_def)
next
  case (Inr ser)
  let ?ev = "\<lparr>ed_body = ser,
               ed_properties = [(''source'', ''ethereum_collector''), (''version'', ''1.0''),
                                (''data_type'', ''ethereum_metrics'')]\<rparr>"
  from Inr show ?thesis
    by (cases "producer_enter env"; cases "producer_exit env";
        cases "send_batch env [?ev] (partition_key (py_hash env) data)")
       (simp_all add: send_to_event_hub_def send_failed_def)
qed

lemma send_to_event_hub_attempts:
  "length (delivered (snd (send_to_event_hub env data st))) \<le> Suc (length (delivered st))"
  using send_to_event_hub_delivered [of env data st] by auto

lemma collection_try_eq:
  "collection_try interval_seconds env st =
     (case send_to_event_hub env (cycle_record env) st of
        (Inl e, st1) \<Rightarrow> (Inl e, st1)
      | (Inr u, st1) \<Rightarrow>
          (Inr (), st1\<lparr>logged := logged st1 @ [LogCycleCompleted (clock_end env - clock_start env)],
                       sleeps := sleeps st1 @
                         [max 0 (real_of_int interval_seconds - (clock_end env - clock_start env))]\<rparr>))"
  by (simp add: collection_try_def fetch_ethereum_data_eq cycle_record_def Let_def
           split: prod.split sum.split)


lemma collection_try_returned:
  assumes "collection_try interval_seconds env st = (Inr u, st1)"
  shows "sleeps st1 = sleeps st @
           [max 0 (real_of_int interval_seconds - (clock_end env - clock_start env))]"
    and "length (delivered st1) \<le> Suc (length (delivered st))"
proof -
  obtain r st' where s: "send_to_event_hub env (cycle_record env) st = (r, st')"
    by (cases "send_to_event_hub env (cycle_record env) st")
  from assms s have "st1 = st'\<lparr>logged := logged st' @ [LogCycleCompleted (clock_end env - clock_start env)],
                       sleeps := sleeps st' @
                         [max 0 (real_of_int interval_seconds - (clock_end env - clock_start env))]\<rparr>"
    by (cases r) (simp_all add: collection_try_eq)
  with s send_to_event_hub_sleeps [of env "cycle_record env" st]
       send_to_event_hub_attempts [of env "cycle_record env" st]
  show "sleeps st1 = sleeps st @
           [max 0 (real_of_int interval_seconds - (clock_end env - clock_start env))]"
    and "length (delivered st1) \<le> Suc (length (delivered st))"
    by simp_all
qed












lemma ex_cycle_record:
  "cycle_record ex_env = ex_record_failed"
  "cycle_record ex_env_sink_down = ex_record_failed"
  "cycle_record ex_env_slow = ex_record_failed"
  by (simp_all add: cycle_record_def ex_env_sink_down_def ex_env_slow_def ex_env_def ex_record_failed_def)


lemma ex_collection_try:
  "collection_try 10 ex_env ex_state =
     (Inr (), \<lparr>logged = [LogInfo (''Data sent to Event Hub successfully at '' @ ex_now),
                         LogCycleCompleted 3],
               sleeps = [7], delivered = [([ex_event], ''3'')]\<rparr>)"
  by (simp add: collection_try_eq ex_cycle_record ex_send) (simp add: ex_env_def)

lemma ex_collection_try_slow:
  "collection_try 10 ex_env_slow ex_state =
     (Inr (), \<lparr>logged = [LogInfo (''Data sent to Event Hub successfully at '' @ ex_now),
                         LogCycleCompleted 12],
               sleeps = [0], delivered = [([ex_event], ''3'')]\<rparr>)"
  by (simp add: collection_try_eq ex_cycle_record ex_send_slow) (simp add: ex_env_slow_def ex_env_def)




text \<open>
  C8. When the body of the \<^verbatim>\<open>try\<close> of \<^verbatim>\<open>run_collection_loop\<close> completes, the pass
  sleeps once, for \<open>max(0, interval_seconds - processing_time)\<close>, where the processing
  time is the difference of the two clock readings; when the processing time is at
  least the interval, that sleep is 0.
\<close>

theorem pacing_sleep:
  "collection_try interval_seconds env st = (Inr u, st1) \<Longrightarrow>
     sleeps (snd (collection_tick interval_seconds env st)) =
       sleeps st @ [max 0 (real_of_int interval_seconds - (clock_end env - clock_start env))] \<and>
     (real_of_int interval_seconds \<le> clock_end env - clock_start env \<longrightarrow>
        sleeps (snd (collection_tick interval_seconds env st)) = sleeps st @ [0])"
proof -
  assume t: "collection_try interval_seconds env st = (Inr u, st1)"
  from collection_try_returned(1) [OF t] t
  have "sleeps (snd (collection_tick interval_seconds env st)) =
       sleeps st @ [max 0 (real_of_int interval_seconds - (clock_end env - clock_start env))]"
    by (simp add: collection_tick_def)
  then show ?thesis
    by simp
qed

theorem pacing_sleep_witness:
  "collection_try 10 ex_env ex_state =
     (Inr (), \<lparr>logged = [LogInfo (''Data sent to Event Hub successfully at '' @ ex_now),
                         LogCycleCompleted 3],
               sleeps = [7], delivered = [([ex_event], ''3'')]\<rparr>) \<and>
   sleeps (snd (collection_tick 10 ex_env ex_state)) = [7] \<and>
   collection_try 10 ex_env_slow ex_state =
     (Inr (), \<lparr>logged = [LogInfo (''Data sent to Event Hub successfully at '' @ ex_now),
                         LogCycleCompleted 12],
               sleeps = [0], delivered = [([ex_event], ''3'')]\<rparr>) \<and>
   real_of_int 10 \<le> clock_end ex_env_slow - clock_start ex_env_slow \<and>
   sleeps (snd (collection_tick 10 ex_env_slow ex_state)) = [0]"
proof -
  from pacing_sleep [OF ex_collection_try]
  have a: "sleeps (snd (collection_tick 10 ex_env ex_state)) = [7]"
    by (simp add: ex_state_def ex_env_def)
  have late: "real_of_int 10 \<le> clock_end ex_env_slow - clock_start ex_env_slow"
    by (simp add: ex_env_slow_def ex_env_def)
  with pacing_sleep [OF ex_collection_try_slow]
  have b: "sleeps (snd (collection_tick 10 ex_env_slow ex_state)) = [0]"
    by (simp add: ex_state_def)
  from a b late ex_collection_try ex_collection_try_slow show ?thesis
    by simp
qed

end
